theory Spec2Isabelle
  imports Complex_Main
begin

section \<open>JSON values\<close>

text \<open>
  The values that pass between the handlers, the framework and the settings library: what
  Python builds from \<open>None\<close>, booleans, integers, floats, strings, lists and dictionaries
  with string keys. A float is finite, or one of the three values that JSON has no text for.
\<close>

datatype pyfloat = Finite real | NaN | PosInfinity | NegInfinity

datatype json =
    JNull
  | JBool bool
  | JInt int
  | JFloat pyfloat
  | JString string
  | JArray "json list"
  | JObject "(string \<times> json) list"

text \<open>Reading a key of a JSON object: the first entry of that name, if there is one.\<close>

definition json_get :: "string \<Rightarrow> json \<Rightarrow> json option" where
  "json_get key j = (case j of JObject kvs \<Rightarrow> map_of kvs key | _ \<Rightarrow> None)"

section \<open>Settings (app/core/config.py)\<close>

text \<open>
  The class \<open>Settings(BaseSettings)\<close> declares four fields with their defaults. Its
  configuration names the file \<open>.env\<close> as a second source and asks for case-sensitive names.
\<close>

record Settings =
  PROJECT_NAME :: string
  VERSION :: string
  DESCRIPTION :: string
  ALLOWED_ORIGINS :: "string list"

text \<open>
  The first source is the environment of the process, a dictionary from variable names to
  raw strings. The second is the \<open>.env\<close> file: the list of its bindings (name, value) as
  the reader of the file returns them, in the order of the file, empty when there is no
  file; of two bindings of one name the later one counts.
\<close>

type_synonym environ = "string \<rightharpoonup> string"

type_synonym dotenv_file = "(string \<times> string) list"

definition dotenv_values :: "dotenv_file \<Rightarrow> environ" where
  "dotenv_values dotenv = map_of (rev dotenv)"

text \<open>
  The two errors of a construction: a source holds a raw string for a field that cannot be
  decoded (the error names the field), or the collected inputs do not validate.
\<close>

datatype config_error = SettingsError string | ValidationError

text \<open>
  The settings library (\<open>pydantic_settings\<close>) is not part of the repository. It decodes the
  raw string of a field of a complex type, here \<open>List[str]\<close>, with \<open>json.loads\<close>; the
  decoder is a parameter of this development, with \<open>None\<close> for a raw string that is no
  JSON text.
\<close>

record settings_library =
  json_loads :: "string \<Rightarrow> json option"

text \<open>
  What one source yields for the field of type \<open>List[str]\<close>: nothing when the source does
  not have the name, the decoded value when it has, and an error when the raw string cannot
  be decoded. A raw string that decodes to null counts as no value. Each source decodes its
  own raw string, also when the other source will win. The name is looked up as it is
  written (\<open>case_sensitive=True\<close>).
\<close>

definition prepare_field_value :: "settings_library \<Rightarrow> string \<Rightarrow> string option \<Rightarrow> config_error + json option" where
  "prepare_field_value lib name raw =
     (case raw of
        None \<Rightarrow> Inr None
      | Some text \<Rightarrow>
          (case json_loads lib text of
             None \<Rightarrow> Inl (SettingsError name)
           | Some j \<Rightarrow> Inr (if j = JNull then None else Some j)))"

text \<open>When both sources have a value, the one of the process wins.\<close>

definition first_source :: "'a option \<Rightarrow> 'a option \<Rightarrow> 'a option" where
  "first_source from_environ from_dotenv =
     (case from_environ of Some v \<Rightarrow> Some v | None \<Rightarrow> from_dotenv)"

text \<open>
  A field of type \<open>str\<close> is not decoded: it takes the raw string of the winning source as
  it is, or its default.
\<close>

definition str_field :: "string \<Rightarrow> string \<Rightarrow> environ \<Rightarrow> dotenv_file \<Rightarrow> string" where
  "str_field name dflt environ dotenv =
     (case first_source (environ name) (dotenv_values dotenv name) of
        None \<Rightarrow> dflt
      | Some raw \<Rightarrow> raw)"

text \<open>Validation against \<open>List[str]\<close>: a list whose elements are all strings.\<close>

fun validate_str :: "json \<Rightarrow> string option" where
  "validate_str (JString s) = Some s"
| "validate_str j = None"

fun validate_str_list :: "json \<Rightarrow> string list option" where
  "validate_str_list (JArray xs) = those (map validate_str xs)"
| "validate_str_list j = None"

text \<open>
  \<open>BaseSettings\<close> forbids extra inputs unless the configuration says otherwise, and this
  configuration (\<open>env_file\<close>, \<open>case_sensitive\<close>) does not. A binding of the file is an
  extra input when its value is not empty and no field accounts for its name: the name is
  none of the four field names and does not begin with the name of the field of complex
  type. Variables of the process that name no field are never inputs.
\<close>

definition accounted :: "string \<Rightarrow> bool" where
  "accounted name =
     (name \<in> {''PROJECT_NAME'', ''VERSION'', ''DESCRIPTION'', ''ALLOWED_ORIGINS''}
      \<or> take (length ''ALLOWED_ORIGINS'') name = ''ALLOWED_ORIGINS'')"

definition extra_inputs :: "dotenv_file \<Rightarrow> string list" where
  "extra_inputs dotenv =
     filter
       (\<lambda>name. case dotenv_values dotenv name of
                  None \<Rightarrow> False
                | Some v \<Rightarrow> v \<noteq> [] \<and> \<not> accounted name)
       (remdups (map fst dotenv))"

text \<open>
  \<open>Settings()\<close>: the source of the process is read, then the source of the file; the
  values are merged and validated together with the extra inputs.
\<close>

definition Settings_init :: "settings_library \<Rightarrow> environ \<Rightarrow> dotenv_file \<Rightarrow> config_error + Settings" where
  "Settings_init lib environ dotenv =
     (case prepare_field_value lib ''ALLOWED_ORIGINS'' (environ ''ALLOWED_ORIGINS'') of
        Inl e \<Rightarrow> Inl e
      | Inr from_environ \<Rightarrow>
     (case prepare_field_value lib ''ALLOWED_ORIGINS'' (dotenv_values dotenv ''ALLOWED_ORIGINS'') of
        Inl e \<Rightarrow> Inl e
      | Inr from_dotenv \<Rightarrow>
     (case (case first_source from_environ from_dotenv of
              None \<Rightarrow> Some [''http://localhost:3000'']
            | Some j \<Rightarrow> validate_str_list j) of
        None \<Rightarrow> Inl ValidationError
      | Some allowed_origins \<Rightarrow>
          if extra_inputs dotenv \<noteq> [] then Inl ValidationError
          else Inr \<lparr>PROJECT_NAME = str_field ''PROJECT_NAME'' ''FastAPI App'' environ dotenv,
                    VERSION = str_field ''VERSION'' ''1.0.0'' environ dotenv,
                    DESCRIPTION = str_field ''DESCRIPTION''
                      ''FastAPI application with best practices'' environ dotenv,
                    ALLOWED_ORIGINS = allowed_origins\<rparr>)))"

subsection \<open>The memoized accessor\<close>

text \<open>
  The state of the process, as far as the program touches it: the single slot of the
  \<open>lru_cache\<close> around \<open>get_settings\<close> (the function has no argument, so the cache has one
  key), the number of times \<open>Settings()\<close> has been called, and the lines printed so far.
  An instance is a pair of its identity and its fields; the identity of a constructed
  instance is the ordinal of the constructor call that made it, so two instances made by
  two calls differ.
\<close>

type_synonym settings_instance = "nat \<times> Settings"

record process =
  cache :: "settings_instance option"
  constructions :: nat
  stdout :: "string list"

definition initial_process :: process where
  "initial_process = \<lparr>cache = None, constructions = 0, stdout = []\<rparr>"

text \<open>
  \<open>get_settings\<close>: a hit returns the cached instance; a miss calls \<open>Settings()\<close> and stores
  the instance only when the call returns one (an exception leaves the cache as it was).
\<close>

definition get_settings :: "settings_library \<Rightarrow> environ \<Rightarrow> dotenv_file \<Rightarrow> process \<Rightarrow> (config_error + settings_instance) \<times> process" where
  "get_settings lib environ dotenv p =
     (case cache p of
        Some inst \<Rightarrow> (Inr inst, p)
      | None \<Rightarrow>
          (let p' = p\<lparr>constructions := Suc (constructions p)\<rparr> in
           case Settings_init lib environ dotenv of
             Inl e \<Rightarrow> (Inl e, p')
           | Inr s \<Rightarrow>
               (let inst = (constructions p, s) in (Inr inst, p'\<lparr>cache := Some inst\<rparr>))))"

section \<open>Requests and responses\<close>

text \<open>
  A request as the routing layer sees it: the method, the path (without the query) and
  the headers in the order they were sent.
\<close>

record request =
  request_method :: string
  path :: string
  headers :: "(string \<times> string) list"

text \<open>
  A response: the status, the content the response was made of and the headers given to
  it. The content is rendered as JSON, except in the two answers that are the framework's
  own: a response without content (\<open>JNull\<close>, nothing is sent) to an exception whose status
  allows no body, and the text of the answer to an error in the server. The headers every
  response carries by itself (media type, length) are left out.
\<close>

record response =
  status_code :: nat
  body :: json
  response_headers :: "(string \<times> string) list"

text \<open>The names of HTTP headers are compared without regard to case; the first entry wins.\<close>

definition lower_char :: "char \<Rightarrow> char" where
  "lower_char c =
     (case map_of (zip ''ABCDEFGHIJKLMNOPQRSTUVWXYZ'' ''abcdefghijklmnopqrstuvwxyz'') c of
        Some l \<Rightarrow> l
      | None \<Rightarrow> c)"

definition header :: "string \<Rightarrow> (string \<times> string) list \<Rightarrow> string option" where
  "header name hs = map_of (map (\<lambda>(k, v). (map lower_char k, v)) hs) (map lower_char name)"

text \<open>
  \<open>HTTPException(status_code, detail, headers)\<close> and the response the framework makes of
  it: the detail as JSON, unless the status is one that allows no body.
\<close>

datatype HTTPException = HTTPException nat string "(string \<times> string) list"

definition JSONResponse :: "nat \<Rightarrow> json \<Rightarrow> (string \<times> string) list \<Rightarrow> response" where
  "JSONResponse code content hs = \<lparr>status_code = code, body = content, response_headers = hs\<rparr>"

definition is_body_allowed_for_status_code :: "nat \<Rightarrow> bool" where
  "is_body_allowed_for_status_code code = (\<not> (code < 200 \<or> code \<in> {204, 205, 304}))"

fun http_exception_handler :: "HTTPException \<Rightarrow> response" where
  "http_exception_handler (HTTPException code detail hs) =
     (if \<not> is_body_allowed_for_status_code code
      then \<lparr>status_code = code, body = JNull, response_headers = hs\<rparr>
      else JSONResponse code (JObject [(''detail'', JString detail)]) hs)"

subsection \<open>From the return value of a handler to the response\<close>

text \<open>
  A route without a response model passes the return value of its handler through
  \<open>jsonable_encoder\<close>. On the values above the encoder changes one thing: in every
  dictionary, at any depth, it leaves out the keys that begin with \<open>_sa\<close>.
\<close>

definition sa_key :: "string \<Rightarrow> bool" where
  "sa_key k = (take 3 k = ''_sa'')"

fun jsonable_encoder :: "json \<Rightarrow> json" where
  "jsonable_encoder (JArray xs) = JArray (map jsonable_encoder xs)"
| "jsonable_encoder (JObject kvs) =
     JObject (map (\<lambda>(k, v). (k, jsonable_encoder v)) (filter (\<lambda>(k, v). \<not> sa_key k) kvs))"
| "jsonable_encoder j = j"

text \<open>
  The JSON response renders its content with \<open>allow_nan=False\<close>: a float that is not
  finite, anywhere in the content, is an error. So is an integer of more than 4300 decimal
  digits, which the interpreter refuses to write. (The interpreter also bounds the depth to
  which lists and dictionaries can be nested; that bound is not modelled.)
\<close>

definition int_max_str_digits :: nat where
  "int_max_str_digits = 4300"

fun renderable :: "json \<Rightarrow> bool" where
  "renderable (JInt n) = (\<bar>n\<bar> < 10 ^ int_max_str_digits)"
| "renderable (JFloat x) = (case x of Finite r \<Rightarrow> True | _ \<Rightarrow> False)"
| "renderable (JArray xs) = (\<forall>x \<in> set xs. renderable x)"
| "renderable (JObject kvs) = (\<forall>(k, v) \<in> set kvs. renderable v)"
| "renderable j = True"

text \<open>
  An exception that leaves a route is answered by the framework with status 500 and the
  text below.
\<close>

definition internal_server_error :: response where
  "internal_server_error =
     \<lparr>status_code = 500, body = JString ''Internal Server Error'', response_headers = []\<rparr>"

definition serialize_response :: "json \<Rightarrow> response" where
  "serialize_response content =
     (let encoded = jsonable_encoder content in
      if renderable encoded then JSONResponse 200 encoded [] else internal_server_error)"

section \<open>Route handlers (app/api/v1/router.py)\<close>

text \<open>
  \<open>health_check\<close> takes no argument and returns a literal dictionary. \<open>protected_route\<close>
  takes the value of its dependency and returns it under the key \<open>user\<close>.
\<close>

definition health_check :: json where
  "health_check = JObject [(''status'', JString ''healthy'')]"

definition protected_route :: "json \<Rightarrow> json" where
  "protected_route current_user =
     JObject [(''message'', JString ''This is a protected route''), (''user'', current_user)]"

text \<open>
  The router is the list of its routes in the order of registration; \<open>@router.get(p)\<close>
  appends a route for the method GET.
\<close>

datatype endpoint = HealthCheck | ProtectedRoute

record route =
  route_path :: string
  route_methods :: "string list"
  endpoint :: endpoint

definition APIRouter :: "route list" where
  "APIRouter = []"

definition router_get :: "string \<Rightarrow> endpoint \<Rightarrow> route list \<Rightarrow> route list" where
  "router_get p ep r = r @ [\<lparr>route_path = p, route_methods = [''GET''], endpoint = ep\<rparr>]"

definition router :: "route list" where
  "router = router_get ''/protected'' ProtectedRoute (router_get ''/health'' HealthCheck APIRouter)"

section \<open>Application assembly (app/main.py)\<close>

record cors_options =
  allow_origins :: "string list"
  allow_credentials :: bool
  allow_methods :: "string list"
  allow_headers :: "string list"

datatype middleware = CORSMiddleware cors_options

record FastAPI =
  title :: string
  version :: string
  description :: string
  user_middleware :: "middleware list"
  routes :: "route list"

text \<open>
  A new application has no middleware of the user's and none of the program's routes. (The
  framework's own documentation routes are not part of this development.)
\<close>

definition FastAPI_init :: "string \<Rightarrow> string \<Rightarrow> string \<Rightarrow> FastAPI" where
  "FastAPI_init t v d =
     \<lparr>title = t, version = v, description = d, user_middleware = [], routes = []\<rparr>"

definition add_middleware :: "middleware \<Rightarrow> FastAPI \<Rightarrow> FastAPI" where
  "add_middleware m a = a\<lparr>user_middleware := m # user_middleware a\<rparr>"

definition include_router :: "route list \<Rightarrow> string \<Rightarrow> FastAPI \<Rightarrow> FastAPI" where
  "include_router r prefix a =
     a\<lparr>routes := routes a @ map (\<lambda>x. x\<lparr>route_path := prefix @ route_path x\<rparr>) r\<rparr>"

text \<open>Lines 17 to 34 of the module, as a function of the value of its variable \<open>settings\<close>.\<close>

definition app :: "Settings \<Rightarrow> FastAPI" where
  "app settings =
     include_router router ''/api/v1''
       (add_middleware
          (CORSMiddleware \<lparr>allow_origins = ALLOWED_ORIGINS settings, allow_credentials = True,
                            allow_methods = [''*''], allow_headers = [''*'']\<rparr>)
          (FastAPI_init (PROJECT_NAME settings) (VERSION settings) (DESCRIPTION settings)))"

text \<open>
  Importing the module: line 7 calls \<open>get_settings\<close>; an exception there ends the import,
  and nothing after it runs.
\<close>

definition main_module :: "settings_library \<Rightarrow> environ \<Rightarrow> dotenv_file \<Rightarrow> process \<Rightarrow> (config_error + FastAPI) \<times> process" where
  "main_module lib environ dotenv p =
     (case get_settings lib environ dotenv p of
        (Inl e, p') \<Rightarrow> (Inl e, p')
      | (Inr (ident, settings), p') \<Rightarrow> (Inr (app settings), p'))"

text \<open>The lifespan: one line printed at startup, one at shutdown.\<close>

definition lifespan_startup :: "process \<Rightarrow> process" where
  "lifespan_startup p = p\<lparr>stdout := stdout p @ [''Starting up...'']\<rparr>"

definition lifespan_shutdown :: "process \<Rightarrow> process" where
  "lifespan_shutdown p = p\<lparr>stdout := stdout p @ [''Shutting down...'']\<rparr>"

section \<open>Serving a request\<close>

text \<open>
  A route matches a path with the regular expression made of its own path between \<open>^\<close>
  and \<open>$\<close> (the paths of this program have no parameters). In Python the \<open>$\<close> also
  stands before a newline that ends the string: the route's path followed by one newline
  matches as the path itself does.
\<close>

definition path_matches :: "string \<Rightarrow> string \<Rightarrow> bool" where
  "path_matches pattern p = (p = pattern \<or> p = pattern @ [CHR 0x0A])"

text \<open>
  The first route that matches the request's path and whose methods hold the request's
  method takes the request.
\<close>

fun match_route :: "route list \<Rightarrow> request \<Rightarrow> endpoint option" where
  "match_route [] req = None"
| "match_route (r # rs) req =
     (if path_matches (route_path r) (path req) \<and> request_method req \<in> set (route_methods r)
      then Some (endpoint r)
      else match_route rs req)"

text \<open>
  Running an endpoint. The dependency of \<open>protected_route\<close> is resolved first: when it
  raises, the exception becomes the response and the handler is not called. The return
  value of a handler becomes the response as described above. Beside the response, the
  result lists the handlers whose bodies ran.
\<close>

definition run_endpoint :: "(request \<Rightarrow> HTTPException + json) \<Rightarrow> endpoint \<Rightarrow> request \<Rightarrow> response \<times> endpoint list" where
  "run_endpoint resolver ep req =
     (case ep of
        HealthCheck \<Rightarrow> (serialize_response health_check, [HealthCheck])
      | ProtectedRoute \<Rightarrow>
          (case resolver req of
             Inl exc \<Rightarrow> (http_exception_handler exc, [])
           | Inr current_user \<Rightarrow>
               (serialize_response (protected_route current_user), [ProtectedRoute])))"

text \<open>
  Serving one request in a process: \<open>None\<close> when no route of the program takes the
  request (the framework then answers by itself). No handler has access to the state of
  the process, which is passed through. The middleware stands in front of the routes; what
  it adds to a response is the framework's and is not modelled.
\<close>

definition serve :: "(request \<Rightarrow> HTTPException + json) \<Rightarrow> FastAPI \<Rightarrow> request \<Rightarrow> process \<Rightarrow> (response \<times> endpoint list) option \<times> process" where
  "serve resolver a req p =
     (case match_route (routes a) req of
        None \<Rightarrow> (None, p)
      | Some ep \<Rightarrow> (Some (run_endpoint resolver ep req), p))"

text \<open>
  What the program does after the import of its main module: the test configuration calls
  \<open>get_settings\<close> again (with the sources as they are then), the lifespan starts and
  stops, requests are served.
\<close>

datatype operation =
    GetSettings environ dotenv_file
  | Startup
  | Serve request
  | Shutdown

fun step :: "settings_library \<Rightarrow> (request \<Rightarrow> HTTPException + json) \<Rightarrow> FastAPI \<Rightarrow> process \<Rightarrow> operation \<Rightarrow> process" where
  "step lib resolver a p (GetSettings environ dotenv) = snd (get_settings lib environ dotenv p)"
| "step lib resolver a p Startup = lifespan_startup p"
| "step lib resolver a p (Serve req) = snd (serve resolver a req p)"
| "step lib resolver a p Shutdown = lifespan_shutdown p"

definition run :: "settings_library \<Rightarrow> (request \<Rightarrow> HTTPException + json) \<Rightarrow> FastAPI \<Rightarrow> operation list \<Rightarrow> process \<Rightarrow> process" where
  "run lib resolver a ops p = foldl (step lib resolver a) p ops"

section \<open>The current-user resolver\<close>

text \<open>
  Modelled from the spec: the authentication error that \<open>get_current_user\<close> raises
  (\<open>app/utils/dependencies.py\<close> is not among the sources). The spec says how it reaches
  the caller: status 401, a \<open>detail\<close>, and the challenge header
  \<open>WWW-Authenticate: Bearer\<close>.
\<close>

definition authentication_error :: "string \<Rightarrow> HTTPException" where
  "authentication_error detail = HTTPException 401 detail [(''WWW-Authenticate'', ''Bearer'')]"

text \<open>
  Modelled from the spec: \<open>get_current_user\<close> of \<open>app/utils/dependencies.py\<close>, which
  the router imports and which is not among the sources. The spec gives its contract: given
  the request's credentials it yields a user identity or fails with an authentication
  error, and a request without \<open>Authorization\<close> header fails so. How a credential is
  verified is not given: \<open>verify\<close> is a parameter, with \<open>Inl\<close> the detail of a refusal,
  and so is the detail for a missing header.
\<close>

definition get_current_user :: "(string \<Rightarrow> string + json) \<Rightarrow> string \<Rightarrow> request \<Rightarrow> HTTPException + json" where
  "get_current_user verify missing req =
     (case header ''Authorization'' (headers req) of
        None \<Rightarrow> Inl (authentication_error missing)
      | Some credential \<Rightarrow>
          (case verify credential of
             Inl detail \<Rightarrow> Inl (authentication_error detail)
           | Inr user \<Rightarrow> Inr user))"

section \<open>Inputs that fail, identities that are echoed\<close>




section \<open>Lemmas on the settings\<close>


lemma Settings_init_fields:
  "Settings_init lib environ dotenv = Inr s \<Longrightarrow>
   PROJECT_NAME s = str_field ''PROJECT_NAME'' ''FastAPI App'' environ dotenv
   \<and> VERSION s = str_field ''VERSION'' ''1.0.0'' environ dotenv
   \<and> DESCRIPTION s = str_field ''DESCRIPTION'' ''FastAPI application with best practices'' environ dotenv
   \<and> (environ ''ALLOWED_ORIGINS'' = None \<and> dotenv_values dotenv ''ALLOWED_ORIGINS'' = None
        \<longrightarrow> ALLOWED_ORIGINS s = [''http://localhost:3000''])"
  by (auto simp: Settings_init_def prepare_field_value_def first_source_def
      split: option.splits sum.splits if_splits)

lemma get_settings_miss:
  "cache p = None \<Longrightarrow> get_settings lib environ dotenv p = (Inr inst, p1) \<Longrightarrow>
   Settings_init lib environ dotenv = Inr (snd inst) \<and> fst inst = constructions p \<and>
   p1 = p\<lparr>constructions := Suc (constructions p), cache := Some inst\<rparr>"
  by (auto simp: get_settings_def Let_def split: sum.splits)

lemma get_settings_hit:
  "cache p = Some inst \<Longrightarrow> get_settings lib environ dotenv p = (Inr inst, p)"
  by (simp add: get_settings_def)

lemma dotenv_values_unset:
  "(dotenv_values dotenv name = None) = (name \<notin> fst ` set dotenv)"
  by (simp add: dotenv_values_def map_of_eq_None_iff)

lemma no_other_bindings:
  assumes "\<forall>name \<in> S. environ name = None \<and> dotenv_values dotenv name = None"
    and "\<forall>(name, raw) \<in> set dotenv. name \<in> S"
  shows "dotenv = []"
proof (cases dotenv)
  case Nil
  then show ?thesis .
next
  case (Cons b bs)
  obtain name raw where b: "b = (name, raw)" by (cases b)
  with Cons have m: "(name, raw) \<in> set dotenv" by simp
  with assms(2) have "name \<in> S" by blast
  with assms(1) have "dotenv_values dotenv name = None" by blast
  with dotenv_values_unset [of dotenv name] have n: "name \<notin> fst ` set dotenv" by blast
  from m have "name \<in> fst ` set dotenv" by force
  with n show ?thesis by contradiction
qed



section \<open>Lemmas on the running process\<close>

text \<open>Once the cache is filled, no operation of the program empties or changes it.\<close>

lemma step_cache:
  "cache p = Some inst \<Longrightarrow>
   cache (step lib resolver a p x) = Some inst \<and>
   constructions (step lib resolver a p x) = constructions p"
  by (cases x)
    (simp_all add: get_settings_def lifespan_startup_def lifespan_shutdown_def serve_def
      split: option.splits)

lemma run_cache:
  "cache p = Some inst \<Longrightarrow>
   cache (run lib resolver a ops p) = Some inst \<and>
   constructions (run lib resolver a ops p) = constructions p"
  unfolding run_def
proof (induction ops arbitrary: p)
  case Nil
  then show ?case by simp
next
  case (Cons x xs)
  from step_cache [OF Cons.prems, of lib resolver a x]
  have c: "cache (step lib resolver a p x) = Some inst"
    and n: "constructions (step lib resolver a p x) = constructions p"
    by simp_all
  from Cons.IH [OF c] n show ?case by simp
qed

lemma main_module_app:
  "main_module lib environ dotenv initial_process = (Inr a, p1) \<Longrightarrow>
   \<exists>ident settings.
     Settings_init lib environ dotenv = Inr settings \<and> a = app settings \<and>
     cache p1 = Some (ident, settings)"
proof -
  assume m: "main_module lib environ dotenv initial_process = (Inr a, p1)"
  then obtain ident settings where
    g: "get_settings lib environ dotenv initial_process = (Inr (ident, settings), p1)"
    and a: "a = app settings"
    by (auto simp: main_module_def split: prod.splits sum.splits)
  have "cache initial_process = None" by (simp add: initial_process_def)
  from get_settings_miss [OF this g] a show ?thesis by simp
qed

section \<open>Lemmas on routing\<close>

lemma routes_app:
  "routes (app settings) =
     [\<lparr>route_path = ''/api/v1/health'', route_methods = [''GET''], endpoint = HealthCheck\<rparr>,
      \<lparr>route_path = ''/api/v1/protected'', route_methods = [''GET''], endpoint = ProtectedRoute\<rparr>]"
  by (simp add: app_def include_router_def add_middleware_def FastAPI_init_def router_def
      router_get_def APIRouter_def)

lemma match_health:
  "request_method req = ''GET'' \<Longrightarrow> path req = ''/api/v1/health'' \<Longrightarrow>
   match_route (routes (app settings)) req = Some HealthCheck"
  by (simp add: routes_app path_matches_def)

lemma match_protected:
  "request_method req = ''GET'' \<Longrightarrow> path req = ''/api/v1/protected'' \<Longrightarrow>
   match_route (routes (app settings)) req = Some ProtectedRoute"
  by (simp add: routes_app path_matches_def)

lemma serialize_health_check:
  "serialize_response health_check =
     \<lparr>status_code = 200, body = JObject [(''status'', JString ''healthy'')],
      response_headers = []\<rparr>"
  by (simp add: serialize_response_def health_check_def JSONResponse_def sa_key_def)


lemma serve_health:
  "request_method req = ''GET'' \<Longrightarrow> path req = ''/api/v1/health'' \<Longrightarrow>
   serve resolver (app settings) req p =
     (Some (\<lparr>status_code = 200, body = JObject [(''status'', JString ''healthy'')],
             response_headers = []\<rparr>, [HealthCheck]), p)"
  by (simp add: serve_def match_health run_endpoint_def serialize_health_check)

lemma serve_protected:
  "request_method req = ''GET'' \<Longrightarrow> path req = ''/api/v1/protected'' \<Longrightarrow>
   serve resolver (app settings) req p =
     (Some (case resolver req of
              Inl exc \<Rightarrow> (http_exception_handler exc, [])
            | Inr current_user \<Rightarrow>
                (serialize_response (protected_route current_user), [ProtectedRoute])), p)"
  by (simp add: serve_def match_protected run_endpoint_def)

lemma header_challenge:
  "header ''WWW-Authenticate'' [(''WWW-Authenticate'', ''Bearer'')] = Some ''Bearer''"
  by (simp add: header_def lower_char_def)

section \<open>The route handlers\<close>

text \<open>
  Claim C1. A request GET /api/v1/protected for which the current-user resolver finds the
  caller unauthenticated or the credential invalid, in particular every such request without
  an \<open>Authorization\<close> header, is answered with status 401, a body with a \<open>detail\<close> field
  and the header \<open>WWW-Authenticate: Bearer\<close>, and the body of the handler does not run (the
  list of handlers run is empty). The resolver is the one modelled from the spec.
\<close>

theorem protected_route_rejects_unauthenticated:
  assumes "request_method req = ''GET''" and "path req = ''/api/v1/protected''"
    and "header ''Authorization'' (headers req) = None
         \<or> (\<exists>exc. get_current_user verify missing req = Inl exc)"
  shows "\<exists>resp detail.
           serve (get_current_user verify missing) (app settings) req p = (Some (resp, []), p)
           \<and> status_code resp = 401
           \<and> json_get ''detail'' (body resp) = Some (JString detail)
           \<and> header ''WWW-Authenticate'' (response_headers resp) = Some ''Bearer''"
proof -
  from assms(3) obtain detail where
    r: "get_current_user verify missing req = Inl (authentication_error detail)"
    by (auto simp: get_current_user_def split: option.splits sum.splits)
  have "serve (get_current_user verify missing) (app settings) req p =
             (Some (\<lparr>status_code = 401, body = JObject [(''detail'', JString detail)],
                     response_headers = [(''WWW-Authenticate'', ''Bearer'')]\<rparr>, []), p)"
    by (simp add: serve_protected [OF assms(1,2)] r authentication_error_def JSONResponse_def
        is_body_allowed_for_status_code_def)
  then show ?thesis
    by (simp add: json_get_def header_challenge)
qed

text \<open>A request without the header, to a resolver that would accept every credential.\<close>

theorem protected_route_rejects_unauthenticated_witness:
  "header ''Authorization''
     (headers \<lparr>request_method = ''GET'', path = ''/api/v1/protected'', headers = [(''Accept'', ''*/*'')]\<rparr>)
     = None
   \<and> (\<exists>resp detail.
         serve (get_current_user (\<lambda>credential. Inr (JString ''test_user'')) ''Not authenticated'')
           (app \<lparr>PROJECT_NAME = ''FastAPI App'', VERSION = ''1.0.0'',
                 DESCRIPTION = ''FastAPI application with best practices'',
                 ALLOWED_ORIGINS = [''http://localhost:3000'']\<rparr>)
           \<lparr>request_method = ''GET'', path = ''/api/v1/protected'', headers = [(''Accept'', ''*/*'')]\<rparr>
           initial_process = (Some (resp, []), initial_process)
         \<and> status_code resp = 401
         \<and> json_get ''detail'' (body resp) = Some (JString detail)
         \<and> header ''WWW-Authenticate'' (response_headers resp) = Some ''Bearer'')"
proof -
  have h: "header ''Authorization''
     (headers \<lparr>request_method = ''GET'', path = ''/api/v1/protected'', headers = [(''Accept'', ''*/*'')]\<rparr>)
     = None"
    by (simp add: header_def lower_char_def)
  show ?thesis
    by (rule conjI [OF h protected_route_rejects_unauthenticated [OF _ _ disjI1 [OF h]]]) simp_all
qed

text \<open>
  Claim C2. Every request GET /api/v1/health, whatever its headers, is answered with status
  200 and the body \<open>{"status": "healthy"}\<close>; the handler takes no input, the state of the
  process after the request is the state before it, and there is always a response.
\<close>

theorem health_check_always_healthy:
  "serve resolver (app settings) \<lparr>request_method = ''GET'', path = ''/api/v1/health'', headers = hs\<rparr> p =
     (Some (\<lparr>status_code = 200, body = JObject [(''status'', JString ''healthy'')],
             response_headers = []\<rparr>, [HealthCheck]), p)"
  by (rule serve_health) simp_all




section \<open>The settings\<close>

text \<open>
  Claim C4. The accessor is memoized for the process. When the first call (the cache is
  empty) returns an instance, that call constructed it with \<open>Settings()\<close>, and every later
  call, after any operations of the program and whatever the sources hold by then, returns
  the same instance (same identity, same fields) and constructs nothing: no operation
  empties or refreshes the cache.
\<close>

theorem get_settings_memoized:
  assumes "cache p = None"
    and "get_settings lib environ dotenv p = (Inr inst, p1)"
  shows "Settings_init lib environ dotenv = Inr (snd inst)
         \<and> constructions p1 = Suc (constructions p)
         \<and> get_settings lib environ' dotenv' (run lib resolver a ops p1) =
             (Inr inst, run lib resolver a ops p1)
         \<and> constructions (run lib resolver a ops p1) = constructions p1"
proof -
  from get_settings_miss [OF assms]
  have s: "Settings_init lib environ dotenv = Inr (snd inst)"
    and p1: "p1 = p\<lparr>constructions := Suc (constructions p), cache := Some inst\<rparr>"
    by simp_all
  from p1 have c: "cache p1 = Some inst" and n: "constructions p1 = Suc (constructions p)"
    by simp_all
  from run_cache [OF c, of lib resolver a ops]
  have c': "cache (run lib resolver a ops p1) = Some inst"
    and n': "constructions (run lib resolver a ops p1) = constructions p1"
    by simp_all
  from get_settings_hit [OF c'] s n n' show ?thesis by simp
qed

text \<open>
  The first call sees VERSION set to 2.0.0; a later call, made after the sources changed,
  still returns the instance of the first call.
\<close>

theorem get_settings_memoized_witness:
  "cache initial_process = None
   \<and> get_settings \<lparr>json_loads = (\<lambda>text. None)\<rparr>
       [''VERSION'' \<mapsto> ''2.0.0''] [] initial_process =
       (Inr (0, \<lparr>PROJECT_NAME = ''FastAPI App'', VERSION = ''2.0.0'',
                 DESCRIPTION = ''FastAPI application with best practices'',
                 ALLOWED_ORIGINS = [''http://localhost:3000'']\<rparr>),
        \<lparr>cache = Some (0, \<lparr>PROJECT_NAME = ''FastAPI App'', VERSION = ''2.0.0'',
                 DESCRIPTION = ''FastAPI application with best practices'',
                 ALLOWED_ORIGINS = [''http://localhost:3000'']\<rparr>),
          constructions = 1, stdout = []\<rparr>)
   \<and> fst (get_settings \<lparr>json_loads = (\<lambda>text. None)\<rparr>
        [''VERSION'' \<mapsto> ''3.0.0''] [(''ALLOWED_ORIGINS'', ''x'')]
        (run \<lparr>json_loads = (\<lambda>text. None)\<rparr>
          (\<lambda>req. Inr JNull)
          (app \<lparr>PROJECT_NAME = ''FastAPI App'', VERSION = ''2.0.0'',
                 DESCRIPTION = ''FastAPI application with best practices'',
                 ALLOWED_ORIGINS = [''http://localhost:3000'']\<rparr>)
          [Startup, GetSettings Map.empty [(''VERSION'', ''3.0.0'')], Shutdown]
          \<lparr>cache = Some (0, \<lparr>PROJECT_NAME = ''FastAPI App'', VERSION = ''2.0.0'',
                 DESCRIPTION = ''FastAPI application with best practices'',
                 ALLOWED_ORIGINS = [''http://localhost:3000'']\<rparr>),
          constructions = 1, stdout = []\<rparr>)) =
       Inr (0, \<lparr>PROJECT_NAME = ''FastAPI App'', VERSION = ''2.0.0'',
                 DESCRIPTION = ''FastAPI application with best practices'',
                 ALLOWED_ORIGINS = [''http://localhost:3000'']\<rparr>)"
proof -
  have h1: "cache initial_process = None"
    by (simp add: initial_process_def)
  have h2: "get_settings \<lparr>json_loads = (\<lambda>text. None)\<rparr>
       [''VERSION'' \<mapsto> ''2.0.0''] [] initial_process =
       (Inr (0, \<lparr>PROJECT_NAME = ''FastAPI App'', VERSION = ''2.0.0'',
                 DESCRIPTION = ''FastAPI application with best practices'',
                 ALLOWED_ORIGINS = [''http://localhost:3000'']\<rparr>),
        \<lparr>cache = Some (0, \<lparr>PROJECT_NAME = ''FastAPI App'', VERSION = ''2.0.0'',
                 DESCRIPTION = ''FastAPI application with best practices'',
                 ALLOWED_ORIGINS = [''http://localhost:3000'']\<rparr>),
          constructions = 1, stdout = []\<rparr>)"
    by (simp add: get_settings_def Let_def Settings_init_def prepare_field_value_def
        first_source_def str_field_def dotenv_values_def extra_inputs_def accounted_def
        initial_process_def)
  from get_settings_memoized [OF h1 h2,
      where environ' = "[''VERSION'' \<mapsto> ''3.0.0'']"
        and dotenv' = "[(''ALLOWED_ORIGINS'', ''x'')]"
        and resolver = "\<lambda>req. Inr JNull"
        and a = "app \<lparr>PROJECT_NAME = ''FastAPI App'', VERSION = ''2.0.0'',
                 DESCRIPTION = ''FastAPI application with best practices'',
                 ALLOWED_ORIGINS = [''http://localhost:3000'']\<rparr>"
        and ops = "[Startup, GetSettings Map.empty [(''VERSION'', ''3.0.0'')], Shutdown]"]
  have h3: "fst (get_settings \<lparr>json_loads = (\<lambda>text. None)\<rparr>
        [''VERSION'' \<mapsto> ''3.0.0''] [(''ALLOWED_ORIGINS'', ''x'')]
        (run \<lparr>json_loads = (\<lambda>text. None)\<rparr>
          (\<lambda>req. Inr JNull)
          (app \<lparr>PROJECT_NAME = ''FastAPI App'', VERSION = ''2.0.0'',
                 DESCRIPTION = ''FastAPI application with best practices'',
                 ALLOWED_ORIGINS = [''http://localhost:3000'']\<rparr>)
          [Startup, GetSettings Map.empty [(''VERSION'', ''3.0.0'')], Shutdown]
          \<lparr>cache = Some (0, \<lparr>PROJECT_NAME = ''FastAPI App'', VERSION = ''2.0.0'',
                 DESCRIPTION = ''FastAPI application with best practices'',
                 ALLOWED_ORIGINS = [''http://localhost:3000'']\<rparr>),
          constructions = 1, stdout = []\<rparr>)) =
       Inr (0, \<lparr>PROJECT_NAME = ''FastAPI App'', VERSION = ''2.0.0'',
                 DESCRIPTION = ''FastAPI application with best practices'',
                 ALLOWED_ORIGINS = [''http://localhost:3000'']\<rparr>)"
    by simp
  show ?thesis by (rule conjI [OF h1 conjI [OF h2 h3]])
qed

text \<open>
  Claim C5, as amended. When neither the process nor the \<open>.env\<close> file sets one of the four
  names PROJECT_NAME, VERSION, DESCRIPTION, ALLOWED_ORIGINS, and the file has no binding
  under any other name, the constructed value has the defaults: "FastAPI App", "1.0.0", the
  default description and the one-entry list with http://localhost:3000. The names are
  matched as written: the process may set any other name, also one that differs from a
  field's name in case only, and whenever a value is constructed each string field holds
  the raw string found under exactly its name, in the process first and in the file second,
  or its default.
\<close>

theorem Settings_defaults:
  "((\<forall>name \<in> {''PROJECT_NAME'', ''VERSION'', ''DESCRIPTION'', ''ALLOWED_ORIGINS''}.
        environ name = None \<and> dotenv_values dotenv name = None)
      \<and> (\<forall>(name, raw) \<in> set dotenv.
            name \<in> {''PROJECT_NAME'', ''VERSION'', ''DESCRIPTION'', ''ALLOWED_ORIGINS''})
      \<longrightarrow> Settings_init lib environ dotenv =
            Inr \<lparr>PROJECT_NAME = ''FastAPI App'', VERSION = ''1.0.0'',
                 DESCRIPTION = ''FastAPI application with best practices'',
                 ALLOWED_ORIGINS = [''http://localhost:3000'']\<rparr>)
   \<and> (Settings_init lib environ dotenv = Inr s
      \<longrightarrow> PROJECT_NAME s =
            (case environ ''PROJECT_NAME'' of
               Some v \<Rightarrow> v
             | None \<Rightarrow> (case dotenv_values dotenv ''PROJECT_NAME'' of
                          Some v \<Rightarrow> v | None \<Rightarrow> ''FastAPI App''))
        \<and> VERSION s =
            (case environ ''VERSION'' of
               Some v \<Rightarrow> v
             | None \<Rightarrow> (case dotenv_values dotenv ''VERSION'' of
                          Some v \<Rightarrow> v | None \<Rightarrow> ''1.0.0''))
        \<and> DESCRIPTION s =
            (case environ ''DESCRIPTION'' of
               Some v \<Rightarrow> v
             | None \<Rightarrow> (case dotenv_values dotenv ''DESCRIPTION'' of
                          Some v \<Rightarrow> v
                        | None \<Rightarrow> ''FastAPI application with best practices''))
        \<and> (environ ''ALLOWED_ORIGINS'' = None \<and> dotenv_values dotenv ''ALLOWED_ORIGINS'' = None
             \<longrightarrow> ALLOWED_ORIGINS s = [''http://localhost:3000'']))"
proof (intro conjI impI)
  assume h: "(\<forall>name \<in> {''PROJECT_NAME'', ''VERSION'', ''DESCRIPTION'', ''ALLOWED_ORIGINS''}.
        environ name = None \<and> dotenv_values dotenv name = None)
      \<and> (\<forall>(name, raw) \<in> set dotenv.
            name \<in> {''PROJECT_NAME'', ''VERSION'', ''DESCRIPTION'', ''ALLOWED_ORIGINS''})"
  from h have h1: "\<forall>name \<in> {''PROJECT_NAME'', ''VERSION'', ''DESCRIPTION'', ''ALLOWED_ORIGINS''}.
        environ name = None \<and> dotenv_values dotenv name = None"
    by (rule conjunct1)
  from h have h2: "\<forall>(name, raw) \<in> set dotenv.
            name \<in> {''PROJECT_NAME'', ''VERSION'', ''DESCRIPTION'', ''ALLOWED_ORIGINS''}"
    by (rule conjunct2)
  have d: "dotenv = []"
    by (rule no_other_bindings [OF h1 h2])
  from h1 have e: "environ ''PROJECT_NAME'' = None" "environ ''VERSION'' = None"
    "environ ''DESCRIPTION'' = None" "environ ''ALLOWED_ORIGINS'' = None"
    by simp_all
  show "Settings_init lib environ dotenv =
            Inr \<lparr>PROJECT_NAME = ''FastAPI App'', VERSION = ''1.0.0'',
                 DESCRIPTION = ''FastAPI application with best practices'',
                 ALLOWED_ORIGINS = [''http://localhost:3000'']\<rparr>"
    unfolding d
    by (simp add: e Settings_init_def prepare_field_value_def first_source_def str_field_def
        dotenv_values_def extra_inputs_def)
next
  assume s: "Settings_init lib environ dotenv = Inr s"
  from Settings_init_fields [OF s]
  show "PROJECT_NAME s =
            (case environ ''PROJECT_NAME'' of
               Some v \<Rightarrow> v
             | None \<Rightarrow> (case dotenv_values dotenv ''PROJECT_NAME'' of
                          Some v \<Rightarrow> v | None \<Rightarrow> ''FastAPI App''))"
    by (simp add: str_field_def first_source_def split: option.splits)
  from Settings_init_fields [OF s]
  show "VERSION s =
            (case environ ''VERSION'' of
               Some v \<Rightarrow> v
             | None \<Rightarrow> (case dotenv_values dotenv ''VERSION'' of
                          Some v \<Rightarrow> v | None \<Rightarrow> ''1.0.0''))"
    by (simp add: str_field_def first_source_def split: option.splits)
  from Settings_init_fields [OF s]
  show "DESCRIPTION s =
            (case environ ''DESCRIPTION'' of
               Some v \<Rightarrow> v
             | None \<Rightarrow> (case dotenv_values dotenv ''DESCRIPTION'' of
                          Some v \<Rightarrow> v
                        | None \<Rightarrow> ''FastAPI application with best practices''))"
    by (simp add: str_field_def first_source_def split: option.splits)
  assume "environ ''ALLOWED_ORIGINS'' = None \<and> dotenv_values dotenv ''ALLOWED_ORIGINS'' = None"
  with Settings_init_fields [OF s]
  show "ALLOWED_ORIGINS s = [''http://localhost:3000'']" by simp
qed

text \<open>
  The process sets names in another case and the declared names are unset: the defaults.
  The process sets VERSION and the file sets PROJECT_NAME: both are taken.
\<close>

theorem Settings_defaults_witness:
  "Settings_init \<lparr>json_loads = (\<lambda>text. None)\<rparr>
       [''project_name'' \<mapsto> ''other'', ''Version'' \<mapsto> ''9''] [] =
     Inr \<lparr>PROJECT_NAME = ''FastAPI App'', VERSION = ''1.0.0'',
          DESCRIPTION = ''FastAPI application with best practices'',
          ALLOWED_ORIGINS = [''http://localhost:3000'']\<rparr>
   \<and> Settings_init \<lparr>json_loads = (\<lambda>text. None)\<rparr>
       [''VERSION'' \<mapsto> ''2.0.0'', ''version'' \<mapsto> ''9''] [(''PROJECT_NAME'', ''Shop'')] =
     Inr \<lparr>PROJECT_NAME = ''Shop'', VERSION = ''2.0.0'',
          DESCRIPTION = ''FastAPI application with best practices'',
          ALLOWED_ORIGINS = [''http://localhost:3000'']\<rparr>
   \<and> VERSION \<lparr>PROJECT_NAME = ''Shop'', VERSION = ''2.0.0'',
          DESCRIPTION = ''FastAPI application with best practices'',
          ALLOWED_ORIGINS = [''http://localhost:3000'']\<rparr> = ''2.0.0''"
proof -
  have a: "Settings_init \<lparr>json_loads = (\<lambda>text. None)\<rparr>
       [''project_name'' \<mapsto> ''other'', ''Version'' \<mapsto> ''9''] [] =
     Inr \<lparr>PROJECT_NAME = ''FastAPI App'', VERSION = ''1.0.0'',
          DESCRIPTION = ''FastAPI application with best practices'',
          ALLOWED_ORIGINS = [''http://localhost:3000'']\<rparr>"
    using Settings_defaults
      [where environ = "[''project_name'' \<mapsto> ''other'', ''Version'' \<mapsto> ''9'']"
         and dotenv = "[]" and lib = "\<lparr>json_loads = (\<lambda>text. None)\<rparr>", THEN conjunct1]
    by (simp add: dotenv_values_def)
  have b: "Settings_init \<lparr>json_loads = (\<lambda>text. None)\<rparr>
       [''VERSION'' \<mapsto> ''2.0.0'', ''version'' \<mapsto> ''9''] [(''PROJECT_NAME'', ''Shop'')] =
     Inr \<lparr>PROJECT_NAME = ''Shop'', VERSION = ''2.0.0'',
          DESCRIPTION = ''FastAPI application with best practices'',
          ALLOWED_ORIGINS = [''http://localhost:3000'']\<rparr>"
    by (simp add: Settings_init_def prepare_field_value_def first_source_def str_field_def
        dotenv_values_def extra_inputs_def accounted_def)
  from Settings_defaults [THEN conjunct2, THEN mp, OF b]
  have c: "VERSION \<lparr>PROJECT_NAME = ''Shop'', VERSION = ''2.0.0'',
          DESCRIPTION = ''FastAPI application with best practices'',
          ALLOWED_ORIGINS = [''http://localhost:3000'']\<rparr> = ''2.0.0''"
    by simp
  show ?thesis by (rule conjI [OF a conjI [OF b c]])
qed

text \<open>
  The claim as it was stated fails when the file binds another name: with \<open>version=9\<close>
  in the file and nothing in the process, neither source sets VERSION, the binding is an
  extra input, and no value is constructed.
\<close>

theorem Settings_defaults_counterexample:
  "Map.empty ''VERSION'' = (None :: string option)
   \<and> dotenv_values [(''version'', ''9'')] ''VERSION'' = None
   \<and> Settings_init \<lparr>json_loads = (\<lambda>text. None)\<rparr> Map.empty [(''version'', ''9'')] =
       Inl ValidationError"
  by (simp add: Settings_init_def prepare_field_value_def first_source_def str_field_def
      dotenv_values_def extra_inputs_def accounted_def)




section \<open>The application assembly\<close>

text \<open>
  Claim C7. The assembled application has exactly one middleware of the user's, the
  cross-origin policy, with the origins of the Settings value, credentials allowed, and
  every method and every header allowed. The policy belongs to the application: a route
  has a path, its methods and an endpoint, and no policy of its own.
\<close>

theorem cors_policy_registered:
  "user_middleware (app settings) =
     [CORSMiddleware \<lparr>allow_origins = ALLOWED_ORIGINS settings, allow_credentials = True,
                       allow_methods = [''*''], allow_headers = [''*'']\<rparr>]"
  by (simp add: app_def include_router_def add_middleware_def FastAPI_init_def)

text \<open>
  Claim C8. The Settings value does not change after its construction. When the import of
  the main module succeeds, the cache holds the value that \<open>Settings()\<close> returned, it holds
  the same value after any sequence of operations of the program, and what the assembly
  read (title, version, description, allowed origins) are the fields of that value.
\<close>

theorem settings_never_mutated:
  assumes "main_module lib environ dotenv initial_process = (Inr a, p1)"
  shows "\<exists>ident settings.
           Settings_init lib environ dotenv = Inr settings
           \<and> cache p1 = Some (ident, settings)
           \<and> cache (run lib resolver a ops p1) = Some (ident, settings)
           \<and> title a = PROJECT_NAME settings
           \<and> version a = VERSION settings
           \<and> description a = DESCRIPTION settings
           \<and> user_middleware a =
               [CORSMiddleware \<lparr>allow_origins = ALLOWED_ORIGINS settings, allow_credentials = True,
                                 allow_methods = [''*''], allow_headers = [''*'']\<rparr>]"
proof -
  from main_module_app [OF assms] obtain ident settings where
    s: "Settings_init lib environ dotenv = Inr settings"
    and a: "a = app settings"
    and c: "cache p1 = Some (ident, settings)"
    by blast
  from run_cache [OF c, of lib resolver a ops]
  have c': "cache (run lib resolver a ops p1) = Some (ident, settings)" by simp
  show ?thesis
    using s c c' a
    by (simp add: app_def include_router_def add_middleware_def FastAPI_init_def)
qed

text \<open>
  With the defaults: after the lifespan has started, a request was served, the test
  configuration asked for the settings while VERSION was set, and the lifespan stopped, the
  cache still holds the instance of the import.
\<close>

theorem settings_never_mutated_witness:
  "main_module \<lparr>json_loads = (\<lambda>text. None)\<rparr>
       Map.empty [] initial_process =
     (Inr (app \<lparr>PROJECT_NAME = ''FastAPI App'', VERSION = ''1.0.0'',
                 DESCRIPTION = ''FastAPI application with best practices'',
                 ALLOWED_ORIGINS = [''http://localhost:3000'']\<rparr>),
      \<lparr>cache = Some (0, \<lparr>PROJECT_NAME = ''FastAPI App'', VERSION = ''1.0.0'',
                 DESCRIPTION = ''FastAPI application with best practices'',
                 ALLOWED_ORIGINS = [''http://localhost:3000'']\<rparr>),
        constructions = 1, stdout = []\<rparr>)
   \<and> cache (run \<lparr>json_loads = (\<lambda>text. None)\<rparr>
        (\<lambda>req. Inr (JString ''test_user''))
        (app \<lparr>PROJECT_NAME = ''FastAPI App'', VERSION = ''1.0.0'',
                 DESCRIPTION = ''FastAPI application with best practices'',
                 ALLOWED_ORIGINS = [''http://localhost:3000'']\<rparr>)
        [Startup, Serve \<lparr>request_method = ''GET'', path = ''/api/v1/protected'', headers = []\<rparr>,
         GetSettings [''VERSION'' \<mapsto> ''2.0.0''] [], Shutdown]
        \<lparr>cache = Some (0, \<lparr>PROJECT_NAME = ''FastAPI App'', VERSION = ''1.0.0'',
                 DESCRIPTION = ''FastAPI application with best practices'',
                 ALLOWED_ORIGINS = [''http://localhost:3000'']\<rparr>),
        constructions = 1, stdout = []\<rparr>) =
       Some (0, \<lparr>PROJECT_NAME = ''FastAPI App'', VERSION = ''1.0.0'',
                 DESCRIPTION = ''FastAPI application with best practices'',
                 ALLOWED_ORIGINS = [''http://localhost:3000'']\<rparr>)"
proof -
  have h: "main_module \<lparr>json_loads = (\<lambda>text. None)\<rparr>
       Map.empty [] initial_process =
     (Inr (app \<lparr>PROJECT_NAME = ''FastAPI App'', VERSION = ''1.0.0'',
                 DESCRIPTION = ''FastAPI application with best practices'',
                 ALLOWED_ORIGINS = [''http://localhost:3000'']\<rparr>),
      \<lparr>cache = Some (0, \<lparr>PROJECT_NAME = ''FastAPI App'', VERSION = ''1.0.0'',
                 DESCRIPTION = ''FastAPI application with best practices'',
                 ALLOWED_ORIGINS = [''http://localhost:3000'']\<rparr>),
        constructions = 1, stdout = []\<rparr>)"
    by (simp add: main_module_def get_settings_def Let_def Settings_init_def prepare_field_value_def
        first_source_def str_field_def dotenv_values_def extra_inputs_def accounted_def initial_process_def)
  from settings_never_mutated [OF h,
      where resolver = "\<lambda>req. Inr (JString ''test_user'')"
        and ops = "[Startup, Serve \<lparr>request_method = ''GET'', path = ''/api/v1/protected'', headers = []\<rparr>,
        GetSettings [''VERSION'' \<mapsto> ''2.0.0''] [], Shutdown]"]
  have r: "cache (run \<lparr>json_loads = (\<lambda>text. None)\<rparr>
        (\<lambda>req. Inr (JString ''test_user''))
        (app \<lparr>PROJECT_NAME = ''FastAPI App'', VERSION = ''1.0.0'',
                 DESCRIPTION = ''FastAPI application with best practices'',
                 ALLOWED_ORIGINS = [''http://localhost:3000'']\<rparr>)
        [Startup, Serve \<lparr>request_method = ''GET'', path = ''/api/v1/protected'', headers = []\<rparr>,
         GetSettings [''VERSION'' \<mapsto> ''2.0.0''] [], Shutdown]
        \<lparr>cache = Some (0, \<lparr>PROJECT_NAME = ''FastAPI App'', VERSION = ''1.0.0'',
                 DESCRIPTION = ''FastAPI application with best practices'',
                 ALLOWED_ORIGINS = [''http://localhost:3000'']\<rparr>),
        constructions = 1, stdout = []\<rparr>) =
       Some (0, \<lparr>PROJECT_NAME = ''FastAPI App'', VERSION = ''1.0.0'',
                 DESCRIPTION = ''FastAPI application with best practices'',
                 ALLOWED_ORIGINS = [''http://localhost:3000'']\<rparr>)"
    by auto
  show ?thesis by (rule conjI [OF h r])
qed

text \<open>
  Claim C9, as amended. The route group registers two routes, /health and /protected, and
  no other; mounting it under the prefix /api/v1 adds to an application exactly these two
  with the prefix in front. In the assembled application the health handler takes a request
  exactly when the method is GET and the path is /api/v1/health or that path followed by
  one newline, and the protected handler exactly when the method is GET and the path is
  /api/v1/protected or that path followed by one newline.
\<close>

theorem routes_mounted_under_prefix:
  "router = [\<lparr>route_path = ''/health'', route_methods = [''GET''], endpoint = HealthCheck\<rparr>,
             \<lparr>route_path = ''/protected'', route_methods = [''GET''], endpoint = ProtectedRoute\<rparr>]
   \<and> routes (include_router router ''/api/v1'' a) = routes a @
        [\<lparr>route_path = ''/api/v1/health'', route_methods = [''GET''], endpoint = HealthCheck\<rparr>,
         \<lparr>route_path = ''/api/v1/protected'', route_methods = [''GET''], endpoint = ProtectedRoute\<rparr>]
   \<and> (match_route (routes (app settings)) req = Some HealthCheck)
        = (request_method req = ''GET''
           \<and> (path req = ''/api/v1/health'' \<or> path req = ''/api/v1/health'' @ [CHR 0x0A]))
   \<and> (match_route (routes (app settings)) req = Some ProtectedRoute)
        = (request_method req = ''GET''
           \<and> (path req = ''/api/v1/protected'' \<or> path req = ''/api/v1/protected'' @ [CHR 0x0A]))"
proof -
  have r: "router =
      [\<lparr>route_path = ''/health'', route_methods = [''GET''], endpoint = HealthCheck\<rparr>,
       \<lparr>route_path = ''/protected'', route_methods = [''GET''], endpoint = ProtectedRoute\<rparr>]"
    by (simp add: router_def router_get_def APIRouter_def)
  have i: "routes (include_router router ''/api/v1'' a) = routes a @
        [\<lparr>route_path = ''/api/v1/health'', route_methods = [''GET''], endpoint = HealthCheck\<rparr>,
         \<lparr>route_path = ''/api/v1/protected'', route_methods = [''GET''], endpoint = ProtectedRoute\<rparr>]"
    by (simp add: r include_router_def)
  have h: "(match_route (routes (app settings)) req = Some HealthCheck)
        = (request_method req = ''GET''
           \<and> (path req = ''/api/v1/health'' \<or> path req = ''/api/v1/health'' @ [CHR 0x0A]))"
    by (auto simp: routes_app path_matches_def)
  have q: "(match_route (routes (app settings)) req = Some ProtectedRoute)
        = (request_method req = ''GET''
           \<and> (path req = ''/api/v1/protected'' \<or> path req = ''/api/v1/protected'' @ [CHR 0x0A]))"
    by (auto simp: routes_app path_matches_def)
  from r i h q show ?thesis by blast
qed

text \<open>
  The claim as it was stated fails at the path /api/v1/health followed by a newline: it is
  another path, and the health handler takes the request.
\<close>

theorem routes_mounted_under_prefix_counterexample:
  "match_route
     (routes (app \<lparr>PROJECT_NAME = ''FastAPI App'', VERSION = ''1.0.0'',
                   DESCRIPTION = ''FastAPI application with best practices'',
                   ALLOWED_ORIGINS = [''http://localhost:3000'']\<rparr>))
     \<lparr>request_method = ''GET'', path = ''/api/v1/health'' @ [CHR 0x0A], headers = []\<rparr>
     = Some HealthCheck
   \<and> ''/api/v1/health'' @ [CHR 0x0A] \<noteq> ''/api/v1/health''"
  by (simp add: routes_app path_matches_def)

text \<open>
  Claim C10. The answer of the health handler depends on nothing. Take two executions of
  the program whose imports succeeded, with any sources, any decoders, any resolvers, any
  operations run since the import and any headers on the request: GET /api/v1/health gets
  the same answer in both, with the body \<open>{"status": "healthy"}\<close>.
\<close>

theorem health_check_noninterference:
  assumes "main_module lib1 environ1 dotenv1 initial_process = (Inr a1, p1)"
    and "main_module lib2 environ2 dotenv2 initial_process = (Inr a2, p2)"
  shows "fst (serve resolver1 a1 \<lparr>request_method = ''GET'', path = ''/api/v1/health'', headers = hs1\<rparr>
                (run lib1 resolver1 a1 ops1 p1))
         = fst (serve resolver2 a2 \<lparr>request_method = ''GET'', path = ''/api/v1/health'', headers = hs2\<rparr>
                (run lib2 resolver2 a2 ops2 p2))
       \<and> map_option (\<lambda>(resp, called). body resp)
           (fst (serve resolver1 a1 \<lparr>request_method = ''GET'', path = ''/api/v1/health'', headers = hs1\<rparr>
                (run lib1 resolver1 a1 ops1 p1)))
         = Some (JObject [(''status'', JString ''healthy'')])
       \<and> health_check = JObject [(''status'', JString ''healthy'')]"
proof -
  from main_module_app [OF assms(1)] obtain s1 where a1: "a1 = app s1" by blast
  from main_module_app [OF assms(2)] obtain s2 where a2: "a2 = app s2" by blast
  show ?thesis
    unfolding a1 a2 by (simp add: serve_health health_check_def)
qed

text \<open>
  One execution with the defaults and a bare request; another with PROJECT_NAME and
  ALLOWED_ORIGINS set, after a startup, and with a header on the request.
\<close>

theorem health_check_noninterference_witness:
  "fst (serve (\<lambda>req. Inr JNull)
          (app \<lparr>PROJECT_NAME = ''FastAPI App'', VERSION = ''1.0.0'',
                DESCRIPTION = ''FastAPI application with best practices'',
                ALLOWED_ORIGINS = [''http://localhost:3000'']\<rparr>)
          \<lparr>request_method = ''GET'', path = ''/api/v1/health'', headers = []\<rparr>
          (run \<lparr>json_loads = (\<lambda>text. None)\<rparr> (\<lambda>req. Inr JNull)
             (app \<lparr>PROJECT_NAME = ''FastAPI App'', VERSION = ''1.0.0'',
                   DESCRIPTION = ''FastAPI application with best practices'',
                   ALLOWED_ORIGINS = [''http://localhost:3000'']\<rparr>) []
             \<lparr>cache = Some (0, \<lparr>PROJECT_NAME = ''FastAPI App'', VERSION = ''1.0.0'',
                   DESCRIPTION = ''FastAPI application with best practices'',
                   ALLOWED_ORIGINS = [''http://localhost:3000'']\<rparr>),
               constructions = 1, stdout = []\<rparr>))
   = fst (serve (\<lambda>req. Inl (HTTPException 401 ''no'' []))
          (app \<lparr>PROJECT_NAME = ''Other'', VERSION = ''1.0.0'',
                DESCRIPTION = ''FastAPI application with best practices'',
                ALLOWED_ORIGINS = []\<rparr>)
          \<lparr>request_method = ''GET'', path = ''/api/v1/health'', headers = [(''Origin'', ''http://evil.example'')]\<rparr>
          (run \<lparr>json_loads = (\<lambda>text. if text = ''[]'' then Some (JArray []) else None)\<rparr>
             (\<lambda>req. Inl (HTTPException 401 ''no'' []))
             (app \<lparr>PROJECT_NAME = ''Other'', VERSION = ''1.0.0'',
                   DESCRIPTION = ''FastAPI application with best practices'',
                   ALLOWED_ORIGINS = []\<rparr>) [Startup]
             \<lparr>cache = Some (0, \<lparr>PROJECT_NAME = ''Other'', VERSION = ''1.0.0'',
                   DESCRIPTION = ''FastAPI application with best practices'',
                   ALLOWED_ORIGINS = []\<rparr>),
               constructions = 1, stdout = []\<rparr>))"
proof -
  have h1: "main_module \<lparr>json_loads = (\<lambda>text. None)\<rparr>
       Map.empty [] initial_process =
     (Inr (app \<lparr>PROJECT_NAME = ''FastAPI App'', VERSION = ''1.0.0'',
                 DESCRIPTION = ''FastAPI application with best practices'',
                 ALLOWED_ORIGINS = [''http://localhost:3000'']\<rparr>),
      \<lparr>cache = Some (0, \<lparr>PROJECT_NAME = ''FastAPI App'', VERSION = ''1.0.0'',
                 DESCRIPTION = ''FastAPI application with best practices'',
                 ALLOWED_ORIGINS = [''http://localhost:3000'']\<rparr>),
        constructions = 1, stdout = []\<rparr>)"
    by (simp add: main_module_def get_settings_def Let_def Settings_init_def prepare_field_value_def
        first_source_def str_field_def dotenv_values_def extra_inputs_def accounted_def initial_process_def)
  have h2: "main_module \<lparr>json_loads = (\<lambda>text. if text = ''[]'' then Some (JArray []) else None)\<rparr>
       [''PROJECT_NAME'' \<mapsto> ''Other''] [(''ALLOWED_ORIGINS'', ''[]'')] initial_process =
     (Inr (app \<lparr>PROJECT_NAME = ''Other'', VERSION = ''1.0.0'',
                 DESCRIPTION = ''FastAPI application with best practices'',
                 ALLOWED_ORIGINS = []\<rparr>),
      \<lparr>cache = Some (0, \<lparr>PROJECT_NAME = ''Other'', VERSION = ''1.0.0'',
                 DESCRIPTION = ''FastAPI application with best practices'',
                 ALLOWED_ORIGINS = []\<rparr>),
        constructions = 1, stdout = []\<rparr>)"
    by (simp add: main_module_def get_settings_def Let_def Settings_init_def prepare_field_value_def
        first_source_def str_field_def dotenv_values_def extra_inputs_def accounted_def initial_process_def)
  show ?thesis
    by (rule health_check_noninterference [OF h1 h2, THEN conjunct1])
qed

end
